theory Spec2Isabelle
  imports Main "HOL-Library.Sublist"
begin

section \<open>Python strings and dictionaries as the program uses them\<close>

text \<open>
  A message of the transcript is a Python dict whose values are text (the data model has
  a role label and a content text). A key may be missing: the program reads every field
  with \<^verbatim>\<open>.get\<close>.
\<close>

type_synonym message = "string \<rightharpoonup> string"

text \<open>\<^verbatim>\<open>m.get(key, default)\<close>\<close>

definition dict_get :: "message \<Rightarrow> string \<Rightarrow> string \<Rightarrow> string" where
  "dict_get m k d = (case m k of None \<Rightarrow> d | Some v \<Rightarrow> v)"

text \<open>\<^verbatim>\<open>sub in s\<close>: \<open>sub\<close> occurs somewhere in \<open>s\<close>.\<close>

fun str_in :: "string \<Rightarrow> string \<Rightarrow> bool" where
  "str_in sub [] = (sub = [])"
| "str_in sub (c # cs) = (prefix sub (c # cs) \<or> str_in sub cs)"

text \<open>
  The search loop of \<^verbatim>\<open>str.find\<close>: \<open>find_from s sub i\<close> looks for \<open>sub\<close> in \<open>s\<close>,
  where \<open>s\<close> is the part of the text that starts at index \<open>i\<close>; the result is the index of
  the first occurrence, or \<open>-1\<close>.
\<close>

fun find_from :: "string \<Rightarrow> string \<Rightarrow> nat \<Rightarrow> int" where
  "find_from [] sub i = (if sub = [] then int i else - 1)"
| "find_from (c # cs) sub i =
     (if prefix sub (c # cs) then int i else find_from cs sub (Suc i))"

text \<open>
  \<^verbatim>\<open>s.find(sub, start)\<close>: a negative start counts from the end and is clipped at 0;
  a start beyond the end finds nothing.
\<close>

definition str_find :: "string \<Rightarrow> string \<Rightarrow> int \<Rightarrow> int" where
  "str_find s sub start =
     (let n = int (length s);
          st = (if start < 0 then max 0 (n + start) else start)
      in if n < st then - 1 else find_from (drop (nat st) s) sub (nat st))"

text \<open>\<^verbatim>\<open>s[a:b]\<close>: negative indices count from the end, both ends are clipped.\<close>

definition py_slice :: "string \<Rightarrow> int \<Rightarrow> int \<Rightarrow> string" where
  "py_slice s a b =
     (let n = int (length s);
          a' = (if a < 0 then max 0 (n + a) else min a n);
          b' = (if b < 0 then max 0 (n + b) else min b n)
      in take (nat (b' - a')) (drop (nat a') s))"

text \<open>
  Truth value of an optional text: \<^verbatim>\<open>None\<close> and the empty text are false.
\<close>

definition truthy :: "string option \<Rightarrow> bool" where
  "truthy r = (case r of None \<Rightarrow> False | Some s \<Rightarrow> s \<noteq> [])"

text \<open>
  \<^verbatim>\<open>a or b\<close>: the right operand is a suspended computation, run only when the left
  one is false.
\<close>

definition py_or :: "string option \<Rightarrow> (unit \<Rightarrow> string option) \<Rightarrow> string option" where
  "py_or a b = (if truthy a then a else b ())"

section \<open>The report extractor\<close>

text \<open>
  The body of the loop of \<^verbatim>\<open>find_agent_response\<close> once a message has passed both tests:
  the value returned for that message's content.
\<close>

definition response_of :: "string \<Rightarrow> string \<Rightarrow> string option \<Rightarrow> string" where
  "response_of content pattern_start pattern_end =
     (if truthy pattern_end then
        (let pe = (case pattern_end of None \<Rightarrow> [] | Some e \<Rightarrow> e);
             start_idx = str_find content pattern_start 0;
             end_idx = str_find content pe start_idx
         in if end_idx \<noteq> - 1
            then py_slice content start_idx (end_idx + int (length pe))
            else content)
      else content)"

text \<open>The loop over \<^verbatim>\<open>reversed(messages)\<close>, on the list already reversed.\<close>

fun scan_messages :: "message list \<Rightarrow> string \<Rightarrow> string option \<Rightarrow> string option" where
  "scan_messages [] pattern_start pattern_end = None"
| "scan_messages (m # ms) pattern_start pattern_end =
     (if m ''role'' = Some ''assistant'' then
        (let content = dict_get m ''content'' [] in
         if str_in pattern_start content
         then Some (response_of content pattern_start pattern_end)
         else scan_messages ms pattern_start pattern_end)
      else scan_messages ms pattern_start pattern_end)"

definition find_agent_response ::
  "message list \<Rightarrow> string \<Rightarrow> string option \<Rightarrow> string option" where
  "find_agent_response messages pattern_start pattern_end =
     scan_messages (rev messages) pattern_start pattern_end"

text \<open>
  The five section values of \<^verbatim>\<open>_generate_final_report\<close>, each the local variable of
  the same name, with the markers of its own calls.
\<close>

definition market_research :: "message list \<Rightarrow> string option" where
  "market_research messages =
     py_or (find_agent_response messages ''### MARKET RESEARCHER'' None)
           (\<lambda>_. find_agent_response messages ''MARKET SIZE:'' None)"

definition competitor_analysis :: "message list \<Rightarrow> string option" where
  "competitor_analysis messages =
     py_or (find_agent_response messages ''### COMPETITOR SCOUT'' None)
           (\<lambda>_. find_agent_response messages ''DIRECT COMPETITORS:'' None)"

definition clarified :: "message list \<Rightarrow> string option" where
  "clarified messages =
     find_agent_response messages ''CLARIFIED IDEA:'' (Some ''BUSINESS MODEL:'')"

definition swot :: "message list \<Rightarrow> string option" where
  "swot messages =
     py_or (find_agent_response messages ''### SWOT ANALYSIS'' None)
           (\<lambda>_. find_agent_response messages ''STRENGTHS:'' None)"

definition feedback :: "message list \<Rightarrow> string option" where
  "feedback messages =
     find_agent_response messages ''STRATEGIC FEEDBACK:'' (Some ''TERMINATE'')"

text \<open>The text of a section value that passed its truth test.\<close>

definition text_of :: "string option \<Rightarrow> string" where
  "text_of r = (case r of None \<Rightarrow> [] | Some s \<Rightarrow> s)"

definition report_header :: "string \<Rightarrow> string \<Rightarrow> string" where
  "report_header business_idea now =
     ''\<newline># Business Validation Report\<newline>**Business Idea:** '' @ business_idea @
     ''\<newline>**Date:** '' @ now @
     ''\<newline>\<newline>## Executive Summary\<newline>This report provides a comprehensive validation analysis of the business idea using a multi-agent AI system with real-time web research.\<newline>\<newline>## Analysis Results\<newline>''"

definition report_footer :: string where
  "report_footer =
     ''\<newline>## Recommendations\<newline>Based on the analysis above, consider the following next steps:\<newline>1. Validate assumptions with potential customers\<newline>2. Create a minimum viable product (MVP)\<newline>3. Test the business model with early adopters\<newline>4. Refine the value proposition based on feedback\<newline>5. Develop a go-to-market strategy\<newline>\<newline>---\<newline>*Report generated by Business Validator AI Agent with real-time web research*\<newline>''"

text \<open>
  \<^verbatim>\<open>_generate_final_report\<close>. The clock is read once, for the date line: its formatted
  value is the parameter \<open>now\<close>. The debug printing writes to standard output only and is
  left out. This is the report as a function of the messages' values; the result pairs
  it with the list it was computed from. What the call does to the transcript as an
  object is the subject of \<open>generate_final_report_st\<close> below.
\<close>

definition generate_final_report ::
  "string \<Rightarrow> string \<Rightarrow> message list \<Rightarrow> string \<times> message list" where
  "generate_final_report business_idea now messages =
     (let report = report_header business_idea now;
          report = (if truthy (market_research messages)
                    then report @ ''\<newline>### Market Research\<newline>'' @
                         text_of (market_research messages) @ ''\<newline>''
                    else report @
                         ''\<newline>### Market Research\<newline>(No MarketResearcher output found.)\<newline>'');
          report = (if truthy (competitor_analysis messages)
                    then report @ ''\<newline>### Competitive Analysis\<newline>'' @
                         text_of (competitor_analysis messages) @ ''\<newline>''
                    else report @
                         ''\<newline>### Competitive Analysis\<newline>(No CompetitorScout output found.)\<newline>'');
          report = (if truthy (clarified messages)
                    then report @ ''\<newline>### Clarified Business Idea\<newline>'' @
                         text_of (clarified messages) @ ''\<newline>''
                    else report);
          report = (if truthy (swot messages)
                    then report @ ''\<newline>### SWOT Analysis\<newline>'' @
                         text_of (swot messages) @ ''\<newline>''
                    else report);
          report = (if truthy (feedback messages)
                    then report @ ''\<newline>### Strategic Feedback\<newline>'' @
                         text_of (feedback messages) @ ''\<newline>''
                    else report);
          report = report @ report_footer
      in (report, messages))"

section \<open>The search augmentation shim\<close>

text \<open>
  The search provider is outside the program: asked a query and a maximal number of
  results, it raises an exception (with its message) or returns result dicts. The
  exceptions are instances of \<^verbatim>\<open>Exception\<close>, which is what a library raises and what the
  handler of \<^verbatim>\<open>web_search\<close> names; interrupts and interpreter exits are not modelled.
\<close>

datatype exn = Exception string

type_synonym provider = "string \<Rightarrow> nat \<Rightarrow> exn + message list"

text \<open>
  The body of the \<^verbatim>\<open>try\<close> of \<^verbatim>\<open>web_search\<close>: the provider call, then
  \<^verbatim>\<open>result["body"]\<close> for each result, a \<^verbatim>\<open>KeyError\<close> where the key is missing.
\<close>

fun bodies :: "message list \<Rightarrow> exn + string list" where
  "bodies [] = Inr []"
| "bodies (r # rs) =
     (case r ''body'' of
        None \<Rightarrow> Inl (Exception ''body'')
      | Some b \<Rightarrow> (case bodies rs of Inl e \<Rightarrow> Inl e | Inr bs \<Rightarrow> Inr (b # bs)))"

definition web_search_try :: "provider \<Rightarrow> string \<Rightarrow> exn + string list" where
  "web_search_try ddgs query =
     (case ddgs query 5 of Inl e \<Rightarrow> Inl e | Inr results \<Rightarrow> bodies results)"

text \<open>\<^verbatim>\<open>web_search\<close>: the handler turns every exception of the body into the empty list.\<close>

definition web_search :: "provider \<Rightarrow> string \<Rightarrow> string list" where
  "web_search ddgs query =
     (case web_search_try ddgs query of Inl e \<Rightarrow> [] | Inr snippets \<Rightarrow> snippets)"

text \<open>\<^verbatim>\<open>sep.join(xs)\<close>\<close>

fun join :: "string \<Rightarrow> string list \<Rightarrow> string" where
  "join sep [] = []"
| "join sep [x] = x"
| "join sep (x # y # ys) = x @ sep @ join sep (y # ys)"

record agent =
  name :: string
  business_idea :: string

text \<open>
  What a call of \<^verbatim>\<open>generate_reply\<close> leaves behind: the caller's message list after the
  call (the last element is assigned to in place), the queries sent to the provider, in
  order, and the value returned, which is the parent's reply.
\<close>

record 'r reply_outcome =
  messages_after :: "message list option"
  queries :: "string list"
  reply :: 'r

text \<open>
  The query of the branch taken in \<^verbatim>\<open>generate_reply\<close>: one template for each of the
  two research roles, no query for any other name.
\<close>

definition research_query :: "agent \<Rightarrow> string option" where
  "research_query self =
     (if name self = ''MarketResearcher''
      then Some (''market trends and analysis for '' @ business_idea self)
      else if name self = ''CompetitorScout''
      then Some (''top competitors and alternatives for '' @ business_idea self)
      else None)"

text \<open>
  \<^verbatim>\<open>WebSearchAgent.generate_reply\<close>. The parent class's method is the parameter
  \<open>super_generate_reply\<close>; \<open>sender\<close> and \<open>config\<close> are handed to it as received and are
  part of it. \<^verbatim>\<open>messages\<close> is \<^verbatim>\<open>None\<close> or a list.
\<close>

definition generate_reply ::
  "(message list option \<Rightarrow> 'r) \<Rightarrow> provider \<Rightarrow> agent \<Rightarrow> message list option
     \<Rightarrow> 'r reply_outcome" where
  "generate_reply super_generate_reply ddgs self messages =
     (case messages of
        None \<Rightarrow>
          \<lparr>messages_after = None, queries = [], reply = super_generate_reply None\<rparr>
      | Some ms \<Rightarrow>
          if ms \<noteq> [] \<and> 0 < length ms then
            (let last_message = dict_get (last ms) ''content'' [];
                 search_results =
                   (case research_query self of
                      None \<Rightarrow> []
                    | Some query \<Rightarrow> web_search ddgs query);
                 ms' = (if search_results \<noteq> []
                        then ms[length ms - 1 :=
                               (last ms)(''content'' \<mapsto>
                                  last_message @ ''\<newline>\<newline>WEB SEARCH RESULTS:\<newline>'' @
                                  join ''\<newline>'' (take 3 search_results))]
                        else ms)
             in \<lparr>messages_after = Some ms',
                 queries = (case research_query self of None \<Rightarrow> [] | Some query \<Rightarrow> [query]),
                 reply = super_generate_reply (Some ms')\<rparr>)
          else
            \<lparr>messages_after = Some ms, queries = [],
             reply = super_generate_reply (Some ms)\<rparr>)"

section \<open>The transcript as a mutable object\<close>

text \<open>
  For what a call does to the transcript, the list and its dicts are objects in a heap:
  the list object holds references, each reference has a dict behind it, and the same
  reference may occur more than once. Every operation the program applies to the list or
  to a message takes the heap and returns the heap after it.
\<close>

record heap =
  refs :: "nat list"
  dicts :: "nat \<Rightarrow> message"

text \<open>The messages of the transcript, in order.\<close>

definition contents :: "heap \<Rightarrow> message list" where
  "contents h = map (dicts h) (refs h)"

text \<open>\<^verbatim>\<open>reversed(messages)\<close>: the references, last first.\<close>

definition list_reversed :: "heap \<Rightarrow> nat list \<times> heap" where
  "list_reversed h = (rev (refs h), h)"

text \<open>\<^verbatim>\<open>for m in messages\<close>: the references in order.\<close>

definition list_iter :: "heap \<Rightarrow> nat list \<times> heap" where
  "list_iter h = (refs h, h)"

text \<open>\<^verbatim>\<open>m.get(key)\<close>\<close>

definition dict_get_opt :: "nat \<Rightarrow> string \<Rightarrow> heap \<Rightarrow> string option \<times> heap" where
  "dict_get_opt r k h = (dicts h r k, h)"

text \<open>\<^verbatim>\<open>m.get(key, default)\<close>\<close>

definition dict_get_st :: "nat \<Rightarrow> string \<Rightarrow> string \<Rightarrow> heap \<Rightarrow> string \<times> heap" where
  "dict_get_st r k d h = (dict_get (dicts h r) k d, h)"

text \<open>
  \<^verbatim>\<open>m[key] = value\<close>, the one write to a message in the program
  (\<^verbatim>\<open>messages[-1]["content"] = ...\<close> in \<^verbatim>\<open>generate_reply\<close>).
\<close>

definition dict_setitem :: "nat \<Rightarrow> string \<Rightarrow> string \<Rightarrow> heap \<Rightarrow> unit \<times> heap" where
  "dict_setitem r k v h = ((), h\<lparr>dicts := (dicts h)(r := (dicts h r)(k \<mapsto> v))\<rparr>)"

text \<open>The loop of \<^verbatim>\<open>find_agent_response\<close>, with the heap handed through every access.\<close>

fun scan_messages_st ::
  "nat list \<Rightarrow> string \<Rightarrow> string option \<Rightarrow> heap \<Rightarrow> string option \<times> heap" where
  "scan_messages_st [] pattern_start pattern_end h = (None, h)"
| "scan_messages_st (m # ms) pattern_start pattern_end h =
     (case dict_get_opt m ''role'' h of
        (role, h1) \<Rightarrow>
          if role = Some ''assistant'' then
            (case dict_get_st m ''content'' [] h1 of
               (content, h2) \<Rightarrow>
                 if str_in pattern_start content
                 then (Some (response_of content pattern_start pattern_end), h2)
                 else scan_messages_st ms pattern_start pattern_end h2)
          else scan_messages_st ms pattern_start pattern_end h1)"

definition find_agent_response_st ::
  "string \<Rightarrow> string option \<Rightarrow> heap \<Rightarrow> string option \<times> heap" where
  "find_agent_response_st pattern_start pattern_end h =
     (case list_reversed h of
        (ms, h1) \<Rightarrow> scan_messages_st ms pattern_start pattern_end h1)"

text \<open>\<^verbatim>\<open>a or b\<close> on two searches: the second runs on the heap the first leaves.\<close>

definition or_st ::
  "(heap \<Rightarrow> string option \<times> heap) \<Rightarrow> (heap \<Rightarrow> string option \<times> heap) \<Rightarrow>
     heap \<Rightarrow> string option \<times> heap" where
  "or_st a b h = (case a h of (x, h1) \<Rightarrow> if truthy x then (x, h1) else b h1)"

text \<open>
  The debug loop: it reads the role and the content of every message and prints them;
  the output is not part of the result.
\<close>

fun print_conversation_st :: "nat list \<Rightarrow> heap \<Rightarrow> unit \<times> heap" where
  "print_conversation_st [] h = ((), h)"
| "print_conversation_st (m # ms) h =
     (case dict_get_opt m ''role'' h of
        (role, h1) \<Rightarrow>
          (case dict_get_st m ''content'' [] h1 of
             (content, h2) \<Rightarrow> print_conversation_st ms h2))"

text \<open>
  \<^verbatim>\<open>_generate_final_report\<close> statement by statement, with its \<open>debug\<close> parameter: the result
  is the report and the heap after the last statement.
\<close>

definition generate_final_report_st ::
  "string \<Rightarrow> string \<Rightarrow> bool \<Rightarrow> heap \<Rightarrow> string \<times> heap" where
  "generate_final_report_st idea now debug h =
     (let (u, h) = (if debug
                    then (let (ms, h) = list_iter h in print_conversation_st ms h)
                    else ((), h));
          report = report_header idea now;
          (market_research, h) =
             or_st (find_agent_response_st ''### MARKET RESEARCHER'' None)
                   (find_agent_response_st ''MARKET SIZE:'' None) h;
          report = (if truthy market_research
                    then report @ ''\<newline>### Market Research\<newline>'' @
                         text_of market_research @ ''\<newline>''
                    else report @
                         ''\<newline>### Market Research\<newline>(No MarketResearcher output found.)\<newline>'');
          (competitor_analysis, h) =
             or_st (find_agent_response_st ''### COMPETITOR SCOUT'' None)
                   (find_agent_response_st ''DIRECT COMPETITORS:'' None) h;
          report = (if truthy competitor_analysis
                    then report @ ''\<newline>### Competitive Analysis\<newline>'' @
                         text_of competitor_analysis @ ''\<newline>''
                    else report @
                         ''\<newline>### Competitive Analysis\<newline>(No CompetitorScout output found.)\<newline>'');
          (clarified, h) =
             find_agent_response_st ''CLARIFIED IDEA:'' (Some ''BUSINESS MODEL:'') h;
          report = (if truthy clarified
                    then report @ ''\<newline>### Clarified Business Idea\<newline>'' @
                         text_of clarified @ ''\<newline>''
                    else report);
          (swot, h) =
             or_st (find_agent_response_st ''### SWOT ANALYSIS'' None)
                   (find_agent_response_st ''STRENGTHS:'' None) h;
          report = (if truthy swot
                    then report @ ''\<newline>### SWOT Analysis\<newline>'' @
                         text_of swot @ ''\<newline>''
                    else report);
          (feedback, h) =
             find_agent_response_st ''STRATEGIC FEEDBACK:'' (Some ''TERMINATE'') h;
          report = (if truthy feedback
                    then report @ ''\<newline>### Strategic Feedback\<newline>'' @
                         text_of feedback @ ''\<newline>''
                    else report);
          report = report @ report_footer
      in (report, h))"

section \<open>Notions used to state the properties\<close>

text \<open>\<open>sub\<close> occurs in \<open>s\<close> at index \<open>i\<close>.\<close>

definition occurs_at :: "string \<Rightarrow> string \<Rightarrow> nat \<Rightarrow> bool" where
  "occurs_at sub s i = (i \<le> length s \<and> prefix sub (drop i s))"

text \<open>\<open>k\<close> is the first index from \<open>a\<close> on at which \<open>sub\<close> occurs in \<open>s\<close>.\<close>

definition first_at :: "string \<Rightarrow> string \<Rightarrow> nat \<Rightarrow> nat \<Rightarrow> bool" where
  "first_at sub s a k =
     (occurs_at sub s k \<and> a \<le> k \<and> (\<forall>j\<in>{a..<k}. \<not> occurs_at sub s j))"

text \<open>\<open>sub\<close> occurs in \<open>s\<close> at no index from \<open>a\<close> on.\<close>

definition absent_from :: "string \<Rightarrow> string \<Rightarrow> nat \<Rightarrow> bool" where
  "absent_from sub s a = (\<forall>j\<in>{a..length s}. \<not> occurs_at sub s j)"

text \<open>A message the extractor may answer from: an assistant message whose content has the marker.\<close>

definition has_marker :: "string \<Rightarrow> message \<Rightarrow> bool" where
  "has_marker pattern_start m =
     (m ''role'' = Some ''assistant'' \<and> str_in pattern_start (dict_get m ''content'' []))"

text \<open>The provider returns no more results than it is asked for.\<close>

definition honours_limit :: "provider \<Rightarrow> bool" where
  "honours_limit ddgs = (\<forall>q n rs. ddgs q n = Inr rs \<longrightarrow> length rs \<le> n)"

text \<open>
  What a primary/fallback pair of markers means for a section value: with an assistant
  message that has the primary marker, the value is the primary search's answer, it passes
  the truth test, and \<^verbatim>\<open>or\<close> returns it whatever its right operand would compute; with
  no such message, the value is the fallback search's answer.
\<close>

definition primary_else_fallback ::
  "message list \<Rightarrow> string \<Rightarrow> string \<Rightarrow> string option \<Rightarrow> bool" where
  "primary_else_fallback msgs primary fallback section =
     (((\<exists>x\<in>set msgs. has_marker primary x) \<longrightarrow>
         section = find_agent_response msgs primary None \<and> truthy section \<and>
         (\<forall>alt. py_or (find_agent_response msgs primary None) alt = section)) \<and>
      ((\<forall>x\<in>set msgs. \<not> has_marker primary x) \<longrightarrow>
         section = find_agent_response msgs fallback None))"

text \<open>
  The lines a section adds to the report: heading and text when the section value passes
  its truth test, the text \<open>otherwise\<close> when it does not.
\<close>

definition section_lines :: "string \<Rightarrow> string \<Rightarrow> string option \<Rightarrow> string" where
  "section_lines title otherwise v =
     (if truthy v
      then ''\<newline>### '' @ title @ ''\<newline>'' @ text_of v @ ''\<newline>''
      else otherwise)"

text \<open>A message dict with both fields.\<close>

definition msg :: "string \<Rightarrow> string \<Rightarrow> message" where
  "msg r c = [''role'' \<mapsto> r, ''content'' \<mapsto> c]"

section \<open>Example transcripts\<close>

definition clarifier_text :: string where
  "clarifier_text = ''Sure. CLARIFIED IDEA: pet taxi. BUSINESS MODEL: fares. BUSINESS MODEL: ads''"

definition feedback_text :: string where
  "feedback_text = ''Intro STRATEGIC FEEDBACK: ok''"

definition twice_text :: string where
  "twice_text = ''E. S: a S: b E. c''"

definition before_text :: string where
  "before_text = ''E. S: a S: b''"

definition mixed_transcript :: "message list" where
  "mixed_transcript =
     [msg ''user'' ''### MARKET RESEARCHER'',
      msg ''assistant'' ''MARKET SIZE: big'',
      msg ''assistant'' ''STRENGTHS: first draft'',
      msg ''assistant'' ''### SWOT ANALYSIS STRENGTHS: many'']"

definition user_only :: "message list" where
  "user_only = [msg ''user'' ''Please validate this business idea: CLARIFIED IDEA: SWOT'']"

definition swot_only :: "message list" where
  "swot_only = [msg ''user'' ''Please validate'', msg ''assistant'' ''STRENGTHS: cheap'']"

definition failing_provider :: provider where
  "failing_provider = (\<lambda>q n. Inl (Exception ''connection timed out''))"

definition four_results :: provider where
  "four_results =
     (\<lambda>q n. Inr (take n [[''body'' \<mapsto> ''s1''], [''body'' \<mapsto> ''s2''],
                          [''body'' \<mapsto> ''s3''], [''body'' \<mapsto> ''s4'']]))"

definition researcher :: agent where
  "researcher = \<lparr>name = ''MarketResearcher'', business_idea = ''pet taxi''\<rparr>"

section \<open>Text search\<close>

lemma occurs_at_0: "occurs_at sub s 0 = prefix sub s"
  by (simp add: occurs_at_def)

lemma occurs_at_Suc: "occurs_at sub (c # cs) (Suc i) = occurs_at sub cs i"
  by (simp add: occurs_at_def)

lemma occurs_at_Nil: "occurs_at sub [] i = (i = 0 \<and> sub = [])"
  by (auto simp: occurs_at_def)

lemma str_in_iff: "str_in sub s = (\<exists>i. occurs_at sub s i)"
proof (induction s)
  case Nil
  show ?case by (simp add: occurs_at_Nil)
next
  case (Cons c cs)
  show ?case
  proof
    assume "str_in sub (c # cs)"
    then consider "prefix sub (c # cs)" | "str_in sub cs" by auto
    then show "\<exists>i. occurs_at sub (c # cs) i"
    proof cases
      case 1
      then have "occurs_at sub (c # cs) 0" by (simp add: occurs_at_0)
      then show ?thesis ..
    next
      case 2
      with Cons obtain i where "occurs_at sub cs i" by auto
      then have "occurs_at sub (c # cs) (Suc i)" by (simp add: occurs_at_Suc)
      then show ?thesis ..
    qed
  next
    assume "\<exists>i. occurs_at sub (c # cs) i"
    then obtain i where i: "occurs_at sub (c # cs) i" ..
    show "str_in sub (c # cs)"
    proof (cases i)
      case 0
      with i show ?thesis by (simp add: occurs_at_0)
    next
      case (Suc j)
      with i have "occurs_at sub cs j" by (simp add: occurs_at_Suc)
      with Cons show ?thesis by auto
    qed
  qed
qed

lemma find_from_first:
  "occurs_at sub s k \<Longrightarrow> (\<forall>j<k. \<not> occurs_at sub s j) \<Longrightarrow> find_from s sub i = int (i + k)"
proof (induction s arbitrary: i k)
  case Nil
  then show ?case by (simp add: occurs_at_Nil)
next
  case (Cons c cs)
  show ?case
  proof (cases k)
    case 0
    with Cons.prems show ?thesis by (simp add: occurs_at_0)
  next
    case (Suc k')
    with Cons.prems have np: "\<not> prefix sub (c # cs)"
      using occurs_at_0 [of sub "c # cs"] by blast
    from Suc Cons.prems have o: "occurs_at sub cs k'" by (simp add: occurs_at_Suc)
    have "\<forall>j<k'. \<not> occurs_at sub cs j"
    proof (intro allI impI)
      fix j assume "j < k'"
      then have "Suc j < k" using Suc by simp
      with Cons.prems have "\<not> occurs_at sub (c # cs) (Suc j)" by blast
      then show "\<not> occurs_at sub cs j" by (simp add: occurs_at_Suc)
    qed
    with o have "find_from cs sub (Suc i) = int (Suc i + k')" by (rule Cons.IH)
    with np Suc show ?thesis by simp
  qed
qed

lemma find_from_none:
  "(\<forall>j. \<not> occurs_at sub s j) \<Longrightarrow> find_from s sub i = - 1"
proof (induction s arbitrary: i)
  case Nil
  then have "\<not> occurs_at sub [] 0" by blast
  then show ?case by (simp add: occurs_at_Nil)
next
  case (Cons c cs)
  from Cons.prems have np: "\<not> prefix sub (c # cs)"
    using occurs_at_0 [of sub "c # cs"] by blast
  have "\<forall>j. \<not> occurs_at sub cs j"
  proof
    fix j
    from Cons.prems have "\<not> occurs_at sub (c # cs) (Suc j)" by blast
    then show "\<not> occurs_at sub cs j" by (simp add: occurs_at_Suc)
  qed
  then have "find_from cs sub (Suc i) = - 1" by (rule Cons.IH)
  with np show ?case by simp
qed

lemma occurs_at_drop:
  "a \<le> length s \<Longrightarrow> occurs_at sub (drop a s) j = occurs_at sub s (a + j)"
  by (auto simp: occurs_at_def add.commute)

lemma str_find_first:
  assumes "occurs_at sub s k" and "a \<le> k"
    and "\<forall>j. a \<le> j \<and> j < k \<longrightarrow> \<not> occurs_at sub s j"
  shows "str_find s sub (int a) = int k"
proof -
  from assms have al: "a \<le> length s" by (simp add: occurs_at_def)
  from assms al have o: "occurs_at sub (drop a s) (k - a)" by (simp add: occurs_at_drop)
  have "\<forall>j<k - a. \<not> occurs_at sub (drop a s) j"
    using assms(3) al by (simp add: occurs_at_drop)
  with o have "find_from (drop a s) sub a = int (a + (k - a))" by (rule find_from_first)
  with al assms(2) show ?thesis by (simp add: str_find_def)
qed

lemma str_find_none:
  assumes "\<forall>j. a \<le> j \<longrightarrow> \<not> occurs_at sub s j"
  shows "str_find s sub (int a) = - 1"
proof (cases "a \<le> length s")
  case True
  have "\<forall>j. \<not> occurs_at sub (drop a s) j"
    using assms True by (simp add: occurs_at_drop)
  then have "find_from (drop a s) sub a = - 1" by (rule find_from_none)
  with True show ?thesis by (simp add: str_find_def)
next
  case False
  then show ?thesis by (simp add: str_find_def)
qed

lemma py_slice_nat:
  "a \<le> b \<Longrightarrow> b \<le> length s \<Longrightarrow> py_slice s (int a) (int b) = take (b - a) (drop a s)"
  by (simp add: py_slice_def Let_def min_def nat_diff_distrib')

lemma str_in_nonempty: "str_in sub s \<Longrightarrow> sub \<noteq> [] \<Longrightarrow> s \<noteq> []"
  by (cases s) auto

text \<open>
  A text that has the marker has a first occurrence of it, and from any index on a marker
  either has a first occurrence or none: the case distinctions below leave no content out.
\<close>

lemma first_at_exists:
  assumes "occurs_at sub s j" and "a \<le> j"
  shows "\<exists>k. first_at sub s a k"
proof -
  define P where "P k = (occurs_at sub s k \<and> a \<le> k)" for k
  from assms have "P j" by (simp add: P_def)
  then have l: "P (LEAST k. P k)" by (rule LeastI)
  have "\<not> P i" if "i < (LEAST k. P k)" for i
    using that by (rule not_less_Least)
  with l have "first_at sub s a (LEAST k. P k)"
    by (auto simp: first_at_def P_def)
  then show ?thesis ..
qed

lemma str_in_first_at: "str_in sub s \<Longrightarrow> \<exists>k. first_at sub s 0 k"
  unfolding str_in_iff using first_at_exists by blast

lemma first_at_or_absent: "(\<exists>k. first_at sub s a k) \<or> absent_from sub s a"
proof (cases "\<exists>j. occurs_at sub s j \<and> a \<le> j")
  case True
  then show ?thesis using first_at_exists by blast
next
  case False
  then show ?thesis by (auto simp: absent_from_def)
qed

section \<open>Scanning the transcript\<close>

lemma scan_messages_skip:
  "\<forall>x\<in>set xs. \<not> has_marker ps x \<Longrightarrow> scan_messages (xs @ ys) ps pe = scan_messages ys ps pe"
  by (induction xs) (auto simp: has_marker_def Let_def)

lemma scan_messages_hit:
  "has_marker ps m \<Longrightarrow>
   scan_messages (m # ys) ps pe = Some (response_of (dict_get m ''content'' []) ps pe)"
  by (simp add: has_marker_def Let_def)

lemma find_agent_response_select:
  assumes "has_marker ps m" and "\<forall>x\<in>set newer. \<not> has_marker ps x"
  shows "find_agent_response (older @ m # newer) ps pe =
         Some (response_of (dict_get m ''content'' []) ps pe)"
proof -
  have "\<forall>x\<in>set (rev newer). \<not> has_marker ps x" using assms(2) by simp
  then have "scan_messages (rev newer @ m # rev older) ps pe =
             scan_messages (m # rev older) ps pe"
    by (rule scan_messages_skip)
  also have "\<dots> = Some (response_of (dict_get m ''content'' []) ps pe)"
    using assms(1) by (rule scan_messages_hit)
  finally show ?thesis
    by (simp add: find_agent_response_def)
qed

lemma find_agent_response_none:
  assumes "\<forall>x\<in>set msgs. \<not> has_marker ps x"
  shows "find_agent_response msgs ps pe = None"
proof -
  have "\<forall>x\<in>set (rev msgs). \<not> has_marker ps x" using assms by simp
  then have "scan_messages (rev msgs @ []) ps pe = scan_messages [] ps pe"
    by (rule scan_messages_skip)
  then show ?thesis by (simp add: find_agent_response_def)
qed

lemma scan_messages_filter:
  "scan_messages (filter (\<lambda>m. m ''role'' = Some ''assistant'') ms) ps pe = scan_messages ms ps pe"
  by (induction ms) (auto simp: Let_def)

lemma find_agent_response_filter:
  "find_agent_response (filter (\<lambda>m. m ''role'' = Some ''assistant'') msgs) ps pe =
   find_agent_response msgs ps pe"
  by (simp add: find_agent_response_def rev_filter scan_messages_filter)

lemma split_at_last_marker:
  assumes "\<exists>x\<in>set msgs. has_marker ps x"
  shows "\<exists>older m newer. msgs = older @ m # newer \<and> has_marker ps m \<and>
           (\<forall>x\<in>set newer. \<not> has_marker ps x)"
  using assms by (rule split_list_last_prop [THEN exE]) blast

lemma response_of_no_end: "\<not> truthy pe \<Longrightarrow> response_of c ps pe = c"
  by (simp add: response_of_def)

lemma response_of_found:
  assumes pe: "pe \<noteq> []"
    and s: "occurs_at ps c i" "\<forall>j<i. \<not> occurs_at ps c j"
    and e: "occurs_at pe c k" "i \<le> k" "\<forall>j. i \<le> j \<and> j < k \<longrightarrow> \<not> occurs_at pe c j"
  shows "response_of c ps (Some pe) = take (k + length pe - i) (drop i c)"
proof -
  have si: "str_find c ps 0 = int i"
    using str_find_first [of ps c i 0] s by simp
  have ei: "str_find c pe (int i) = int k"
    using e by (rule str_find_first)
  from e(1) have "prefix pe (drop k c)" "k \<le> length c" by (simp_all add: occurs_at_def)
  then have "length pe \<le> length (drop k c)" using prefix_length_le by blast
  with \<open>k \<le> length c\<close> have kl: "k + length pe \<le> length c" by simp
  have "py_slice c (int i) (int (k + length pe)) = take (k + length pe - i) (drop i c)"
    using e(2) kl by (intro py_slice_nat) simp_all
  with si ei pe show ?thesis
    by (simp add: response_of_def truthy_def Let_def)
qed

lemma response_of_not_found:
  assumes pe: "pe \<noteq> []"
    and s: "occurs_at ps c i" "\<forall>j<i. \<not> occurs_at ps c j"
    and e: "\<forall>j. i \<le> j \<longrightarrow> \<not> occurs_at pe c j"
  shows "response_of c ps (Some pe) = c"
proof -
  have si: "str_find c ps 0 = int i"
    using str_find_first [of ps c i 0] s by simp
  have ei: "str_find c pe (int i) = - 1"
    using e by (rule str_find_none)
  with si pe show ?thesis
    by (simp add: response_of_def truthy_def Let_def)
qed

lemma first_at_str_in: "first_at sub s a k \<Longrightarrow> str_in sub s"
  unfolding first_at_def str_in_iff by blast

lemma response_of_first_at:
  assumes "pe \<noteq> []" and "first_at ps c 0 i" and "first_at pe c i k"
  shows "response_of c ps (Some pe) = drop i (take (k + length pe) c)"
proof -
  from assms(2) have s: "occurs_at ps c i" "\<forall>j<i. \<not> occurs_at ps c j"
    by (auto simp: first_at_def)
  from assms(3) have e: "occurs_at pe c k" "i \<le> k"
    "\<forall>j. i \<le> j \<and> j < k \<longrightarrow> \<not> occurs_at pe c j"
    by (auto simp: first_at_def)
  from assms(1) s e have "response_of c ps (Some pe) = take (k + length pe - i) (drop i c)"
    by (rule response_of_found)
  then show ?thesis by (simp add: drop_take)
qed

lemma response_of_absent:
  assumes "pe \<noteq> []" and "first_at ps c 0 i" and "absent_from pe c i"
  shows "response_of c ps (Some pe) = c"
proof -
  from assms(2) have s: "occurs_at ps c i" "\<forall>j<i. \<not> occurs_at ps c j"
    by (auto simp: first_at_def)
  from assms(3) have e: "\<forall>j. i \<le> j \<longrightarrow> \<not> occurs_at pe c j"
    by (auto simp: absent_from_def occurs_at_def)
  from assms(1) s e show ?thesis by (rule response_of_not_found)
qed

lemma slice_ends_with_marker:
  assumes "occurs_at pe c k" and "i \<le> k"
  shows "suffix pe (drop i (take (k + length pe) c))"
proof -
  from assms(1) have kl: "k \<le> length c" and p: "prefix pe (drop k c)"
    by (simp_all add: occurs_at_def)
  from p obtain rest where r: "drop k c = pe @ rest" by (auto simp: prefix_def)
  have "take (k + length pe) c = take k c @ take (length pe) (drop k c)"
    by (simp add: take_add)
  also have "\<dots> = take k c @ pe" using r by simp
  finally have "drop i (take (k + length pe) c) = drop i (take k c) @ pe"
    using assms(2) kl by simp
  then show ?thesis by (simp add: suffix_def)
qed

lemma has_marker_first_at:
  "m ''role'' = Some ''assistant'' \<Longrightarrow> first_at ps (dict_get m ''content'' []) 0 i \<Longrightarrow> has_marker ps m"
  by (simp add: has_marker_def first_at_str_in)

lemma slice_starts_with_marker:
  assumes "occurs_at ps c i" and "i + length ps \<le> k + length pe"
  shows "prefix ps (drop i (take (k + length pe) c))"
proof -
  from assms(1) obtain rest where r: "drop i c = ps @ rest"
    by (auto simp: occurs_at_def prefix_def)
  have "drop i (take (k + length pe) c) = take (k + length pe - i) (drop i c)"
    by (simp add: drop_take)
  also have "\<dots> = ps @ take (k + length pe - i - length ps) rest"
    using r assms(2) by simp
  finally show ?thesis by simp
qed

lemma absent_fromI: "\<not> str_in sub (drop a s) \<Longrightarrow> absent_from sub s a"
  unfolding absent_from_def str_in_iff
proof
  fix j assume n: "\<nexists>i. occurs_at sub (drop a s) i" and j: "j \<in> {a..length s}"
  then have "\<not> occurs_at sub (drop a s) (j - a)" by blast
  with j show "\<not> occurs_at sub s j" by (simp add: occurs_at_drop)
qed

section \<open>The clarified-idea section\<close>

text \<open>
  C3. Let \<open>m\<close> be the assistant message the scan answers from (no more recent assistant
  message has the start marker), with content \<open>c\<close>; let \<open>i\<close> be the index of the first
  occurrence of \<^verbatim>\<open>CLARIFIED IDEA:\<close> in \<open>c\<close> and \<open>k\<close> the index of the first occurrence of
  \<^verbatim>\<open>BUSINESS MODEL:\<close> from \<open>i\<close> on. Then the clarified-idea section, the
  value the loop body returns for \<open>c\<close>, is exactly the part of \<open>c\<close> from index \<open>i\<close> up to
  the end of that occurrence of the end marker: it starts with the start marker and ends
  with the end marker's text.
\<close>

theorem clarified_idea_substring:
  assumes "m ''role'' = Some ''assistant''"
    and "dict_get m ''content'' [] = c"
    and "\<forall>x\<in>set newer. \<not> has_marker ''CLARIFIED IDEA:'' x"
    and "first_at ''CLARIFIED IDEA:'' c 0 i"
    and "first_at ''BUSINESS MODEL:'' c i k"
  shows "clarified (older @ m # newer) =
           Some (drop i (take (k + length ''BUSINESS MODEL:'') c)) \<and>
         response_of c ''CLARIFIED IDEA:'' (Some ''BUSINESS MODEL:'') =
           drop i (take (k + length ''BUSINESS MODEL:'') c) \<and>
         prefix ''CLARIFIED IDEA:'' (drop i (take (k + length ''BUSINESS MODEL:'') c)) \<and>
         suffix ''BUSINESS MODEL:'' (drop i (take (k + length ''BUSINESS MODEL:'') c))"
proof -
  have hm: "has_marker ''CLARIFIED IDEA:'' m"
    using assms(1,2,4) by (auto intro: has_marker_first_at)
  have "clarified (older @ m # newer) =
        Some (response_of c ''CLARIFIED IDEA:'' (Some ''BUSINESS MODEL:''))"
    unfolding clarified_def using find_agent_response_select [OF hm assms(3)] assms(2)
    by simp
  moreover have "response_of c ''CLARIFIED IDEA:'' (Some ''BUSINESS MODEL:'') =
        drop i (take (k + length ''BUSINESS MODEL:'') c)"
    using assms(4,5) by (intro response_of_first_at) simp_all
  moreover have "suffix ''BUSINESS MODEL:'' (drop i (take (k + length ''BUSINESS MODEL:'') c))"
    using assms(5) by (intro slice_ends_with_marker) (simp_all add: first_at_def)
  moreover have "prefix ''CLARIFIED IDEA:'' (drop i (take (k + length ''BUSINESS MODEL:'') c))"
    using assms(4,5) by (intro slice_starts_with_marker) (simp_all add: first_at_def)
  ultimately show ?thesis by simp
qed

theorem clarified_idea_substring_witness:
  "msg ''assistant'' clarifier_text ''role'' = Some ''assistant'' \<and>
   dict_get (msg ''assistant'' clarifier_text) ''content'' [] = clarifier_text \<and>
   \<not> has_marker ''CLARIFIED IDEA:'' (msg ''user'' ''CLARIFIED IDEA: none'') \<and>
   first_at ''CLARIFIED IDEA:'' clarifier_text 0 6 \<and>
   first_at ''BUSINESS MODEL:'' clarifier_text 6 32 \<and>
   clarified ([msg ''assistant'' ''old''] @ msg ''assistant'' clarifier_text #
              [msg ''user'' ''CLARIFIED IDEA: none'']) =
     Some ''CLARIFIED IDEA: pet taxi. BUSINESS MODEL:''"
proof -
  have h1: "msg ''assistant'' clarifier_text ''role'' = Some ''assistant''"
    by (simp add: msg_def)
  have h2: "dict_get (msg ''assistant'' clarifier_text) ''content'' [] = clarifier_text"
    by (simp add: msg_def dict_get_def)
  have h3: "\<forall>x\<in>set [msg ''user'' ''CLARIFIED IDEA: none'']. \<not> has_marker ''CLARIFIED IDEA:'' x"
    by (simp add: has_marker_def msg_def)
  have h4: "first_at ''CLARIFIED IDEA:'' clarifier_text 0 6" by code_simp
  have h5: "first_at ''BUSINESS MODEL:'' clarifier_text 6 32" by code_simp
  have v: "drop 6 (take (32 + length ''BUSINESS MODEL:'') clarifier_text) =
           ''CLARIFIED IDEA: pet taxi. BUSINESS MODEL:''"
    by (simp add: clarifier_text_def)
  from clarified_idea_substring [OF h1 h2 h3 h4 h5, of "[msg ''assistant'' ''old'']"] v
  have "clarified ([msg ''assistant'' ''old''] @ msg ''assistant'' clarifier_text #
              [msg ''user'' ''CLARIFIED IDEA: none'']) =
     Some ''CLARIFIED IDEA: pet taxi. BUSINESS MODEL:''" by simp
  with h1 h2 h3 h4 h5 show ?thesis by simp
qed

section \<open>Where the extraction starts and where the end marker is looked for\<close>

text \<open>
  C9. Let \<open>m\<close> be the assistant message the scan answers from, with content \<open>c\<close>, and
  \<open>i\<close> the index of the first occurrence of the start marker in \<open>c\<close>, whether or not the
  marker occurs again later. With an end marker given, the extraction starts at \<open>i\<close> and
  the end marker is looked for from \<open>i\<close> on: if \<open>k\<close> is its first occurrence from \<open>i\<close> on,
  the result is the part of \<open>c\<close> from \<open>i\<close> to the end of that occurrence, whatever
  occurrences of the end marker lie before \<open>i\<close>; if the end marker does not occur from
  \<open>i\<close> on (so at most before the start marker), the result is the whole content.
\<close>

theorem extraction_anchors:
  assumes "m ''role'' = Some ''assistant''"
    and "dict_get m ''content'' [] = c"
    and "\<forall>x\<in>set newer. \<not> has_marker ps x"
    and "pe \<noteq> []"
    and "first_at ps c 0 i"
  shows "(\<forall>k. first_at pe c i k \<longrightarrow>
            find_agent_response (older @ m # newer) ps (Some pe) =
              Some (drop i (take (k + length pe) c))) \<and>
         (absent_from pe c i \<longrightarrow>
            find_agent_response (older @ m # newer) ps (Some pe) = Some c)"
proof -
  have hm: "has_marker ps m"
    using assms(1,2,5) by (auto intro: has_marker_first_at)
  have sel: "find_agent_response (older @ m # newer) ps (Some pe) =
        Some (response_of c ps (Some pe))"
    using find_agent_response_select [OF hm assms(3)] assms(2) by simp
  show ?thesis
  proof (intro conjI allI impI)
    fix k assume "first_at pe c i k"
    with assms(4,5) have "response_of c ps (Some pe) = drop i (take (k + length pe) c)"
      by (rule response_of_first_at)
    with sel show "find_agent_response (older @ m # newer) ps (Some pe) =
              Some (drop i (take (k + length pe) c))" by simp
  next
    assume "absent_from pe c i"
    with assms(4,5) have "response_of c ps (Some pe) = c"
      by (rule response_of_absent)
    with sel show "find_agent_response (older @ m # newer) ps (Some pe) = Some c" by simp
  qed
qed

theorem extraction_anchors_witness:
  "first_at ''S:'' twice_text 0 3 \<and> first_at ''E.'' twice_text 3 13 \<and>
   occurs_at ''S:'' twice_text 8 \<and> occurs_at ''E.'' twice_text 0 \<and>
   find_agent_response [msg ''assistant'' twice_text] ''S:'' (Some ''E.'') = Some ''S: a S: b E.'' \<and>
   first_at ''S:'' before_text 0 3 \<and> absent_from ''E.'' before_text 3 \<and>
   occurs_at ''E.'' before_text 0 \<and>
   find_agent_response [msg ''assistant'' before_text] ''S:'' (Some ''E.'') = Some ''E. S: a S: b''"
proof -
  have r: "\<And>t. msg ''assistant'' t ''role'' = Some ''assistant''"
    by (simp add: msg_def)
  have c: "\<And>t. dict_get (msg ''assistant'' t) ''content'' [] = t"
    by (simp add: msg_def dict_get_def)
  have n: "\<forall>x\<in>set []. \<not> has_marker ''S:'' x" by simp
  have e: "''E.'' \<noteq> []" by simp
  have a1: "first_at ''S:'' twice_text 0 3" by code_simp
  have a2: "first_at ''E.'' twice_text 3 13" by code_simp
  have a3: "occurs_at ''S:'' twice_text 8" by code_simp
  have a4: "occurs_at ''E.'' twice_text 0" by code_simp
  have b1: "first_at ''S:'' before_text 0 3" by code_simp
  have b2: "absent_from ''E.'' before_text 3"
    by (rule absent_fromI) (simp add: before_text_def)
  have b3: "occurs_at ''E.'' before_text 0" by code_simp
  have v: "drop 3 (take (13 + length ''E.'') twice_text) = ''S: a S: b E.''"
    by (simp add: twice_text_def)
  have "find_agent_response ([] @ msg ''assistant'' twice_text # []) ''S:'' (Some ''E.'') =
        Some (drop 3 (take (13 + length ''E.'') twice_text))"
    using extraction_anchors [OF r c n e a1, of "[]"] a2 by blast
  with v have p1: "find_agent_response [msg ''assistant'' twice_text] ''S:'' (Some ''E.'') =
        Some ''S: a S: b E.''" by simp
  have "find_agent_response ([] @ msg ''assistant'' before_text # []) ''S:'' (Some ''E.'') =
        Some before_text"
    using extraction_anchors [OF r c n e b1, of "[]"] b2 by blast
  then have p2: "find_agent_response [msg ''assistant'' before_text] ''S:'' (Some ''E.'') =
        Some ''E. S: a S: b''" by (simp add: before_text_def)
  from a1 a2 a3 a4 p1 b1 b2 b3 p2 show ?thesis by simp
qed

section \<open>The strategic-feedback section without an end marker\<close>

text \<open>
  C2, as the code has it. Let \<open>m\<close> be the most recent assistant message whose content
  has \<^verbatim>\<open>STRATEGIC FEEDBACK:\<close>, with content \<open>c\<close>, and let \<^verbatim>\<open>TERMINATE\<close> not occur in \<open>c\<close>
  at or after the first occurrence of the start marker. Then the feedback section is the
  whole content of that message, the text before the start marker included; no error is
  possible, the result is a value.
\<close>

theorem feedback_without_terminate:
  assumes "m ''role'' = Some ''assistant''"
    and "dict_get m ''content'' [] = c"
    and "\<forall>x\<in>set newer. \<not> has_marker ''STRATEGIC FEEDBACK:'' x"
    and "first_at ''STRATEGIC FEEDBACK:'' c 0 i"
    and "absent_from ''TERMINATE'' c i"
  shows "feedback (older @ m # newer) = Some c"
proof -
  have hm: "has_marker ''STRATEGIC FEEDBACK:'' m"
    using assms(1,2,4) by (auto intro: has_marker_first_at)
  have "feedback (older @ m # newer) =
        Some (response_of c ''STRATEGIC FEEDBACK:'' (Some ''TERMINATE''))"
    unfolding feedback_def using find_agent_response_select [OF hm assms(3)] assms(2)
    by simp
  moreover have "response_of c ''STRATEGIC FEEDBACK:'' (Some ''TERMINATE'') = c"
    using assms(4,5) by (intro response_of_absent) simp_all
  ultimately show ?thesis by simp
qed

theorem feedback_without_terminate_witness:
  "msg ''assistant'' feedback_text ''role'' = Some ''assistant'' \<and>
   dict_get (msg ''assistant'' feedback_text) ''content'' [] = feedback_text \<and>
   \<not> has_marker ''STRATEGIC FEEDBACK:'' (msg ''user'' ''STRATEGIC FEEDBACK: mine'') \<and>
   first_at ''STRATEGIC FEEDBACK:'' feedback_text 0 6 \<and>
   absent_from ''TERMINATE'' feedback_text 6 \<and>
   feedback ([msg ''assistant'' ''STRATEGIC FEEDBACK: old TERMINATE''] @
             msg ''assistant'' feedback_text # [msg ''user'' ''STRATEGIC FEEDBACK: mine'']) =
     Some ''Intro STRATEGIC FEEDBACK: ok''"
proof -
  have h1: "msg ''assistant'' feedback_text ''role'' = Some ''assistant''"
    by (simp add: msg_def)
  have h2: "dict_get (msg ''assistant'' feedback_text) ''content'' [] = feedback_text"
    by (simp add: msg_def dict_get_def)
  have h3': "\<not> has_marker ''STRATEGIC FEEDBACK:'' (msg ''user'' ''STRATEGIC FEEDBACK: mine'')"
    by (simp add: has_marker_def msg_def)
  then have h3: "\<forall>x\<in>set [msg ''user'' ''STRATEGIC FEEDBACK: mine''].
      \<not> has_marker ''STRATEGIC FEEDBACK:'' x" by simp
  have h4: "first_at ''STRATEGIC FEEDBACK:'' feedback_text 0 6" by code_simp
  have h5: "absent_from ''TERMINATE'' feedback_text 6"
    by (rule absent_fromI) (simp add: feedback_text_def)
  from feedback_without_terminate [OF h1 h2 h3 h4 h5,
      of "[msg ''assistant'' ''STRATEGIC FEEDBACK: old TERMINATE'']"]
  have "feedback ([msg ''assistant'' ''STRATEGIC FEEDBACK: old TERMINATE''] @
             msg ''assistant'' feedback_text # [msg ''user'' ''STRATEGIC FEEDBACK: mine'']) =
     Some ''Intro STRATEGIC FEEDBACK: ok''" by (simp add: feedback_text_def)
  with h1 h2 h3' h4 h5 show ?thesis by simp
qed

text \<open>
  The claim as stated fails where text precedes the start marker: the section is then
  not the remainder of the message from the start marker on.
\<close>

theorem feedback_remainder_counterexample:
  "has_marker ''STRATEGIC FEEDBACK:'' (msg ''assistant'' feedback_text) \<and>
   first_at ''STRATEGIC FEEDBACK:'' feedback_text 0 6 \<and>
   absent_from ''TERMINATE'' feedback_text 6 \<and>
   drop 6 feedback_text = ''STRATEGIC FEEDBACK: ok'' \<and>
   feedback [msg ''assistant'' feedback_text] = Some ''Intro STRATEGIC FEEDBACK: ok'' \<and>
   feedback [msg ''assistant'' feedback_text] \<noteq> Some (drop 6 feedback_text)"
proof -
  have a: "has_marker ''STRATEGIC FEEDBACK:'' (msg ''assistant'' feedback_text)"
    by (simp add: has_marker_def msg_def dict_get_def feedback_text_def)
  have b: "first_at ''STRATEGIC FEEDBACK:'' feedback_text 0 6" by code_simp
  have c: "absent_from ''TERMINATE'' feedback_text 6"
    by (rule absent_fromI) (simp add: feedback_text_def)
  have d: "drop 6 feedback_text = ''STRATEGIC FEEDBACK: ok''"
    by (simp add: feedback_text_def)
  have e: "feedback [msg ''assistant'' feedback_text] = Some ''Intro STRATEGIC FEEDBACK: ok''"
    by code_simp
  from a b c d e show ?thesis by simp
qed

section \<open>Which message the extractor answers from\<close>

text \<open>
  C4. For every transcript and every pair of markers: the answer comes from the most
  recent assistant message whose content has the start marker (a message \<open>m\<close> with no
  such message after it), and is the value the loop body returns for that message's
  content. Messages of any other role play no part: deleting them all leaves the answer
  unchanged, and a transcript without assistant messages gives \<^verbatim>\<open>None\<close> whatever the
  other messages contain.
\<close>

theorem most_recent_assistant_match:
  "(has_marker ps m \<and> (\<forall>x\<in>set newer. \<not> has_marker ps x) \<longrightarrow>
      find_agent_response (older @ m # newer) ps pe =
        Some (response_of (dict_get m ''content'' []) ps pe)) \<and>
   find_agent_response msgs ps pe =
     find_agent_response (filter (\<lambda>x. x ''role'' = Some ''assistant'') msgs) ps pe \<and>
   ((\<forall>x\<in>set msgs. x ''role'' \<noteq> Some ''assistant'') \<longrightarrow>
      find_agent_response msgs ps pe = None)"
proof (intro conjI impI)
  assume "has_marker ps m \<and> (\<forall>x\<in>set newer. \<not> has_marker ps x)"
  then show "find_agent_response (older @ m # newer) ps pe =
        Some (response_of (dict_get m ''content'' []) ps pe)"
    by (simp add: find_agent_response_select)
next
  show "find_agent_response msgs ps pe =
     find_agent_response (filter (\<lambda>x. x ''role'' = Some ''assistant'') msgs) ps pe"
    by (simp add: find_agent_response_filter)
next
  assume "\<forall>x\<in>set msgs. x ''role'' \<noteq> Some ''assistant''"
  then have "\<forall>x\<in>set msgs. \<not> has_marker ps x" by (simp add: has_marker_def)
  then show "find_agent_response msgs ps pe = None" by (rule find_agent_response_none)
qed

theorem most_recent_assistant_match_witness:
  "has_marker ''MARKET SIZE:'' (msg ''assistant'' ''MARKET SIZE: new'') \<and>
   \<not> has_marker ''MARKET SIZE:'' (msg ''user'' ''MARKET SIZE: said the user'') \<and>
   \<not> has_marker ''MARKET SIZE:'' (msg ''assistant'' ''thanks'') \<and>
   find_agent_response
     ([msg ''assistant'' ''MARKET SIZE: old''] @ msg ''assistant'' ''MARKET SIZE: new'' #
      [msg ''user'' ''MARKET SIZE: said the user'', msg ''assistant'' ''thanks''])
     ''MARKET SIZE:'' None = Some ''MARKET SIZE: new'' \<and>
   msg ''user'' ''MARKET SIZE: said the user'' ''role'' \<noteq> Some ''assistant'' \<and>
   find_agent_response [msg ''user'' ''MARKET SIZE: said the user''] ''MARKET SIZE:'' None = None"
proof -
  have h1: "has_marker ''MARKET SIZE:'' (msg ''assistant'' ''MARKET SIZE: new'')"
    by (simp add: has_marker_def msg_def dict_get_def)
  have h2: "\<not> has_marker ''MARKET SIZE:'' (msg ''user'' ''MARKET SIZE: said the user'')"
    by (simp add: has_marker_def msg_def)
  have h3: "\<not> has_marker ''MARKET SIZE:'' (msg ''assistant'' ''thanks'')"
    by (simp add: has_marker_def msg_def dict_get_def)
  have h4: "\<forall>x\<in>set [msg ''user'' ''MARKET SIZE: said the user'', msg ''assistant'' ''thanks''].
      \<not> has_marker ''MARKET SIZE:'' x"
    using h2 h3 by simp
  have v: "response_of (dict_get (msg ''assistant'' ''MARKET SIZE: new'') ''content'' [])
             ''MARKET SIZE:'' None = ''MARKET SIZE: new''"
    by (simp add: response_of_def truthy_def msg_def dict_get_def)
  have h5: "msg ''user'' ''MARKET SIZE: said the user'' ''role'' \<noteq> Some ''assistant''"
    by (simp add: msg_def)
  then have h6: "\<forall>x\<in>set [msg ''user'' ''MARKET SIZE: said the user''].
      x ''role'' \<noteq> Some ''assistant''" by simp
  have p1: "find_agent_response
     ([msg ''assistant'' ''MARKET SIZE: old''] @ msg ''assistant'' ''MARKET SIZE: new'' #
      [msg ''user'' ''MARKET SIZE: said the user'', msg ''assistant'' ''thanks''])
     ''MARKET SIZE:'' None = Some ''MARKET SIZE: new''"
    using most_recent_assistant_match
      [of "''MARKET SIZE:''" "msg ''assistant'' ''MARKET SIZE: new''"
          "[msg ''user'' ''MARKET SIZE: said the user'', msg ''assistant'' ''thanks'']"
          "[msg ''assistant'' ''MARKET SIZE: old'']" None "[]"] h1 h4 v
    by simp
  have p2: "find_agent_response [msg ''user'' ''MARKET SIZE: said the user''] ''MARKET SIZE:'' None = None"
    using most_recent_assistant_match
      [of "''MARKET SIZE:''" "msg ''assistant'' ''MARKET SIZE: new''" "[]" "[]" None
          "[msg ''user'' ''MARKET SIZE: said the user'']"] h6
    by blast
  from h1 h2 h3 p1 h5 p2 show ?thesis by simp
qed

section \<open>Primary and fallback markers\<close>

lemma find_agent_response_truthy:
  assumes "\<exists>x\<in>set msgs. has_marker p x" and "p \<noteq> []"
  shows "truthy (find_agent_response msgs p None)"
proof -
  from split_at_last_marker [OF assms(1)] obtain older m newer where
    s: "msgs = older @ m # newer" and hm: "has_marker p m"
    and n: "\<forall>x\<in>set newer. \<not> has_marker p x" by blast
  from hm have "str_in p (dict_get m ''content'' [])" by (simp add: has_marker_def)
  with assms(2) have ne: "dict_get m ''content'' [] \<noteq> []"
    using str_in_nonempty by blast
  have "find_agent_response msgs p None = Some (dict_get m ''content'' [])"
    unfolding s using find_agent_response_select [OF hm n]
    by (simp add: response_of_def truthy_def)
  with ne show ?thesis by (simp add: truthy_def)
qed

lemma py_or_primary_else_fallback:
  assumes "p \<noteq> []"
  shows "primary_else_fallback msgs p f
           (py_or (find_agent_response msgs p None) (\<lambda>_. find_agent_response msgs f None))"
  unfolding primary_else_fallback_def
proof (rule conjI; rule impI)
  assume "\<exists>x\<in>set msgs. has_marker p x"
  then have t: "truthy (find_agent_response msgs p None)"
    using assms by (rule find_agent_response_truthy)
  then show "py_or (find_agent_response msgs p None) (\<lambda>_. find_agent_response msgs f None) =
        find_agent_response msgs p None \<and>
        truthy (py_or (find_agent_response msgs p None) (\<lambda>_. find_agent_response msgs f None)) \<and>
        (\<forall>alt. py_or (find_agent_response msgs p None) alt =
           py_or (find_agent_response msgs p None) (\<lambda>_. find_agent_response msgs f None))"
    by (simp add: py_or_def)
next
  assume "\<forall>x\<in>set msgs. \<not> has_marker p x"
  then have "find_agent_response msgs p None = None" by (rule find_agent_response_none)
  then show "py_or (find_agent_response msgs p None) (\<lambda>_. find_agent_response msgs f None) =
        find_agent_response msgs f None"
    by (simp add: py_or_def truthy_def)
qed

text \<open>
  C5. For every transcript, each of the three sections with a marker pair (market
  research, competitive analysis, SWOT analysis) follows its own pair and no other
  section's: if some assistant message has the primary marker, the section value is the
  primary search's answer and does not depend on the fallback search; if none has it, the
  section value is the fallback search's answer.
\<close>

theorem primary_then_fallback:
  "primary_else_fallback msgs ''### MARKET RESEARCHER'' ''MARKET SIZE:'' (market_research msgs) \<and>
   primary_else_fallback msgs ''### COMPETITOR SCOUT'' ''DIRECT COMPETITORS:''
     (competitor_analysis msgs) \<and>
   primary_else_fallback msgs ''### SWOT ANALYSIS'' ''STRENGTHS:'' (swot msgs)"
  unfolding market_research_def competitor_analysis_def swot_def
  by (intro conjI py_or_primary_else_fallback) simp_all

theorem primary_then_fallback_witness:
  "\<not> has_marker ''### MARKET RESEARCHER'' (msg ''user'' ''### MARKET RESEARCHER'') \<and>
   market_research mixed_transcript = Some ''MARKET SIZE: big'' \<and>
   has_marker ''### SWOT ANALYSIS'' (msg ''assistant'' ''### SWOT ANALYSIS STRENGTHS: many'') \<and>
   swot mixed_transcript = Some ''### SWOT ANALYSIS STRENGTHS: many'' \<and>
   py_or (find_agent_response mixed_transcript ''### SWOT ANALYSIS'' None) (\<lambda>_. None) =
     Some ''### SWOT ANALYSIS STRENGTHS: many''"
proof -
  have n1: "\<not> has_marker ''### MARKET RESEARCHER'' (msg ''user'' ''### MARKET RESEARCHER'')"
    by (simp add: has_marker_def msg_def)
  have n: "\<forall>x\<in>set mixed_transcript. \<not> has_marker ''### MARKET RESEARCHER'' x"
    by (simp add: mixed_transcript_def has_marker_def msg_def dict_get_def)
  have h: "has_marker ''### SWOT ANALYSIS'' (msg ''assistant'' ''### SWOT ANALYSIS STRENGTHS: many'')"
    by (simp add: has_marker_def msg_def dict_get_def)
  then have e: "\<exists>x\<in>set mixed_transcript. has_marker ''### SWOT ANALYSIS'' x"
    by (simp add: mixed_transcript_def)
  have f1: "find_agent_response mixed_transcript ''MARKET SIZE:'' None = Some ''MARKET SIZE: big''"
    by (simp add: mixed_transcript_def find_agent_response_def msg_def dict_get_def
        response_of_def truthy_def)
  have f2: "find_agent_response mixed_transcript ''### SWOT ANALYSIS'' None =
        Some ''### SWOT ANALYSIS STRENGTHS: many''"
    by (simp add: mixed_transcript_def find_agent_response_def msg_def dict_get_def
        response_of_def truthy_def)
  note t = primary_then_fallback [of mixed_transcript, unfolded primary_else_fallback_def]
  from t n f1 have p1: "market_research mixed_transcript = Some ''MARKET SIZE: big''"
    by simp
  from t e f2 have p2: "swot mixed_transcript = Some ''### SWOT ANALYSIS STRENGTHS: many''"
    by simp
  from t e have "\<forall>alt. py_or (find_agent_response mixed_transcript ''### SWOT ANALYSIS'' None)
      alt = swot mixed_transcript"
    by simp
  with p2 have p3: "py_or (find_agent_response mixed_transcript ''### SWOT ANALYSIS'' None)
      (\<lambda>_. None) = Some ''### SWOT ANALYSIS STRENGTHS: many''"
    by simp
  from n1 p1 h p2 p3 show ?thesis by simp
qed

section \<open>The transcript after report generation\<close>

text \<open>
  Each step of the scan leaves the heap as it found it and computes what the scan over
  the messages' values computes; so do the searches, \<^verbatim>\<open>or\<close> on two searches, the debug
  loop and the whole report generation.
\<close>

lemma scan_messages_st_eq:
  "scan_messages_st ms ps pe h = (scan_messages (map (dicts h) ms) ps pe, h)"
  by (induction ms) (simp_all add: dict_get_opt_def dict_get_st_def Let_def)

lemma find_agent_response_st_eq:
  "find_agent_response_st ps pe h = (find_agent_response (contents h) ps pe, h)"
  by (simp add: find_agent_response_st_def list_reversed_def scan_messages_st_eq
      find_agent_response_def contents_def rev_map)

lemma or_st_eq:
  assumes "a h = (x, h)" and "b h = (y, h)"
  shows "or_st a b h = (py_or x (\<lambda>_. y), h)"
  using assms by (simp add: or_st_def py_or_def)

lemma print_conversation_st_eq: "print_conversation_st ms h = ((), h)"
  by (induction ms) (simp_all add: dict_get_opt_def dict_get_st_def)

lemma market_research_st_eq:
  "or_st (find_agent_response_st ''### MARKET RESEARCHER'' None)
         (find_agent_response_st ''MARKET SIZE:'' None) h = (market_research (contents h), h)"
  unfolding market_research_def
  by (rule or_st_eq) (rule find_agent_response_st_eq)+

lemma competitor_analysis_st_eq:
  "or_st (find_agent_response_st ''### COMPETITOR SCOUT'' None)
         (find_agent_response_st ''DIRECT COMPETITORS:'' None) h =
   (competitor_analysis (contents h), h)"
  unfolding competitor_analysis_def
  by (rule or_st_eq) (rule find_agent_response_st_eq)+

lemma swot_st_eq:
  "or_st (find_agent_response_st ''### SWOT ANALYSIS'' None)
         (find_agent_response_st ''STRENGTHS:'' None) h = (swot (contents h), h)"
  unfolding swot_def
  by (rule or_st_eq) (rule find_agent_response_st_eq)+

lemma clarified_st_eq:
  "find_agent_response_st ''CLARIFIED IDEA:'' (Some ''BUSINESS MODEL:'') h =
   (clarified (contents h), h)"
  unfolding clarified_def by (rule find_agent_response_st_eq)

lemma feedback_st_eq:
  "find_agent_response_st ''STRATEGIC FEEDBACK:'' (Some ''TERMINATE'') h =
   (feedback (contents h), h)"
  unfolding feedback_def by (rule find_agent_response_st_eq)

lemma debug_log_eq:
  "(if debug then (case list_iter h of (ms, h') \<Rightarrow> print_conversation_st ms h') else ((), h)) =
   ((), h)"
  by (simp add: list_iter_def print_conversation_st_eq)

lemma generate_final_report_st_eq:
  "generate_final_report_st idea now debug h =
     (fst (generate_final_report idea now (contents h)), h)"
  unfolding generate_final_report_st_def generate_final_report_def
  by (simp only: debug_log_eq market_research_st_eq competitor_analysis_st_eq swot_st_eq
      clarified_st_eq feedback_st_eq prod.case Let_def fst_conv)

text \<open>
  C8. For every transcript, every business idea and both values of \<open>debug\<close>: the heap
  after \<^verbatim>\<open>_generate_final_report\<close> is the heap before it. The list holds the same
  references, so it has the same length, and the role and content of every message are
  unchanged.
\<close>

theorem report_generation_reads_only:
  "snd (generate_final_report_st idea now debug h) = h \<and>
   length (refs (snd (generate_final_report_st idea now debug h))) = length (refs h) \<and>
   map (\<lambda>m. (m ''role'', m ''content'')) (contents (snd (generate_final_report_st idea now debug h))) =
     map (\<lambda>m. (m ''role'', m ''content'')) (contents h)"
  by (simp add: generate_final_report_st_eq)

text \<open>
  The statement is not one that every program over the heap satisfies: the assignment of
  \<^verbatim>\<open>generate_reply\<close> changes the heap whenever it stores a new value.
\<close>

lemma dict_setitem_writes:
  "dicts h r k \<noteq> Some v \<Longrightarrow> snd (dict_setitem r k v h) \<noteq> h"
proof
  assume n: "dicts h r k \<noteq> Some v" and e: "snd (dict_setitem r k v h) = h"
  from e have "dicts (snd (dict_setitem r k v h)) r k = dicts h r k" by simp
  then have "Some v = dicts h r k" by (simp add: dict_setitem_def)
  with n show False by simp
qed

section \<open>Sections without a match\<close>

lemma if_append_both: "(if c then r @ a else r @ b) = r @ (if c then a else b)"
  by simp

lemma if_append_one: "(if c then r @ a else r) = r @ (if c then a else [])"
  by simp

lemma report_structure:
  "fst (generate_final_report idea now msgs) =
     report_header idea now @
     section_lines ''Market Research''
       ''\<newline>### Market Research\<newline>(No MarketResearcher output found.)\<newline>''
       (market_research msgs) @
     section_lines ''Competitive Analysis''
       ''\<newline>### Competitive Analysis\<newline>(No CompetitorScout output found.)\<newline>''
       (competitor_analysis msgs) @
     section_lines ''Clarified Business Idea'' [] (clarified msgs) @
     section_lines ''SWOT Analysis'' [] (swot msgs) @
     section_lines ''Strategic Feedback'' [] (feedback msgs) @
     report_footer"
  unfolding generate_final_report_def Let_def section_lines_def
  by (simp only: if_append_both if_append_one fst_conv append_assoc append.simps)

lemma pair_absent:
  assumes "\<forall>x\<in>set msgs. \<not> has_marker p x \<and> \<not> has_marker f x"
  shows "py_or (find_agent_response msgs p None) (\<lambda>_. find_agent_response msgs f None) = None"
proof -
  from assms have "find_agent_response msgs p None = None"
    by (intro find_agent_response_none) simp
  moreover from assms have "find_agent_response msgs f None = None"
    by (intro find_agent_response_none) simp
  ultimately show ?thesis by (simp add: py_or_def truthy_def)
qed

lemma section_lines_None: "section_lines title otherwise None = otherwise"
  by (simp add: section_lines_def truthy_def)

text \<open>
  C1, as the code has it. The report is the header, the lines of the five sections in
  their fixed order, and the footer; it is a value for every transcript. A market research
  or competitive analysis section none of whose markers is in an assistant message adds
  its fixed placeholder lines. A clarified idea, SWOT analysis or strategic feedback
  section none of whose markers is in an assistant message adds nothing, neither heading
  nor placeholder.
\<close>

theorem missing_sections:
  "fst (generate_final_report idea now msgs) =
     report_header idea now @
     section_lines ''Market Research''
       ''\<newline>### Market Research\<newline>(No MarketResearcher output found.)\<newline>''
       (market_research msgs) @
     section_lines ''Competitive Analysis''
       ''\<newline>### Competitive Analysis\<newline>(No CompetitorScout output found.)\<newline>''
       (competitor_analysis msgs) @
     section_lines ''Clarified Business Idea'' [] (clarified msgs) @
     section_lines ''SWOT Analysis'' [] (swot msgs) @
     section_lines ''Strategic Feedback'' [] (feedback msgs) @
     report_footer \<and>
   ((\<forall>x\<in>set msgs. \<not> has_marker ''### MARKET RESEARCHER'' x \<and> \<not> has_marker ''MARKET SIZE:'' x) \<longrightarrow>
      section_lines ''Market Research''
        ''\<newline>### Market Research\<newline>(No MarketResearcher output found.)\<newline>''
        (market_research msgs) =
      ''\<newline>### Market Research\<newline>(No MarketResearcher output found.)\<newline>'') \<and>
   ((\<forall>x\<in>set msgs. \<not> has_marker ''### COMPETITOR SCOUT'' x \<and>
        \<not> has_marker ''DIRECT COMPETITORS:'' x) \<longrightarrow>
      section_lines ''Competitive Analysis''
        ''\<newline>### Competitive Analysis\<newline>(No CompetitorScout output found.)\<newline>''
        (competitor_analysis msgs) =
      ''\<newline>### Competitive Analysis\<newline>(No CompetitorScout output found.)\<newline>'') \<and>
   ((\<forall>x\<in>set msgs. \<not> has_marker ''CLARIFIED IDEA:'' x) \<longrightarrow>
      section_lines ''Clarified Business Idea'' [] (clarified msgs) = []) \<and>
   ((\<forall>x\<in>set msgs. \<not> has_marker ''### SWOT ANALYSIS'' x \<and> \<not> has_marker ''STRENGTHS:'' x) \<longrightarrow>
      section_lines ''SWOT Analysis'' [] (swot msgs) = []) \<and>
   ((\<forall>x\<in>set msgs. \<not> has_marker ''STRATEGIC FEEDBACK:'' x) \<longrightarrow>
      section_lines ''Strategic Feedback'' [] (feedback msgs) = [])"
proof (intro conjI impI)
  show "fst (generate_final_report idea now msgs) =
     report_header idea now @
     section_lines ''Market Research''
       ''\<newline>### Market Research\<newline>(No MarketResearcher output found.)\<newline>''
       (market_research msgs) @
     section_lines ''Competitive Analysis''
       ''\<newline>### Competitive Analysis\<newline>(No CompetitorScout output found.)\<newline>''
       (competitor_analysis msgs) @
     section_lines ''Clarified Business Idea'' [] (clarified msgs) @
     section_lines ''SWOT Analysis'' [] (swot msgs) @
     section_lines ''Strategic Feedback'' [] (feedback msgs) @
     report_footer"
    by (rule report_structure)
next
  assume "\<forall>x\<in>set msgs. \<not> has_marker ''### MARKET RESEARCHER'' x \<and> \<not> has_marker ''MARKET SIZE:'' x"
  then have "market_research msgs = None"
    unfolding market_research_def by (rule pair_absent)
  then show "section_lines ''Market Research''
        ''\<newline>### Market Research\<newline>(No MarketResearcher output found.)\<newline>''
        (market_research msgs) =
      ''\<newline>### Market Research\<newline>(No MarketResearcher output found.)\<newline>''"
    by (simp only: section_lines_None)
next
  assume "\<forall>x\<in>set msgs. \<not> has_marker ''### COMPETITOR SCOUT'' x \<and>
        \<not> has_marker ''DIRECT COMPETITORS:'' x"
  then have "competitor_analysis msgs = None"
    unfolding competitor_analysis_def by (rule pair_absent)
  then show "section_lines ''Competitive Analysis''
        ''\<newline>### Competitive Analysis\<newline>(No CompetitorScout output found.)\<newline>''
        (competitor_analysis msgs) =
      ''\<newline>### Competitive Analysis\<newline>(No CompetitorScout output found.)\<newline>''"
    by (simp only: section_lines_None)
next
  assume "\<forall>x\<in>set msgs. \<not> has_marker ''CLARIFIED IDEA:'' x"
  then have "clarified msgs = None"
    unfolding clarified_def by (rule find_agent_response_none)
  then show "section_lines ''Clarified Business Idea'' [] (clarified msgs) = []"
    by (simp only: section_lines_None)
next
  assume "\<forall>x\<in>set msgs. \<not> has_marker ''### SWOT ANALYSIS'' x \<and> \<not> has_marker ''STRENGTHS:'' x"
  then have "swot msgs = None"
    unfolding swot_def by (rule pair_absent)
  then show "section_lines ''SWOT Analysis'' [] (swot msgs) = []"
    by (simp only: section_lines_None)
next
  assume "\<forall>x\<in>set msgs. \<not> has_marker ''STRATEGIC FEEDBACK:'' x"
  then have "feedback msgs = None"
    unfolding feedback_def by (rule find_agent_response_none)
  then show "section_lines ''Strategic Feedback'' [] (feedback msgs) = []"
    by (simp only: section_lines_None)
qed

theorem missing_sections_witness:
  "\<not> has_marker ''STRENGTHS:'' (msg ''user'' ''Please validate'') \<and>
   has_marker ''STRENGTHS:'' (msg ''assistant'' ''STRENGTHS: cheap'') \<and>
   fst (generate_final_report ''pet taxi'' ''2025-01-01 12:00:00'' swot_only) =
     report_header ''pet taxi'' ''2025-01-01 12:00:00'' @
     ''\<newline>### Market Research\<newline>(No MarketResearcher output found.)\<newline>'' @
     ''\<newline>### Competitive Analysis\<newline>(No CompetitorScout output found.)\<newline>'' @
     ''\<newline>### SWOT Analysis\<newline>STRENGTHS: cheap\<newline>'' @
     report_footer"
proof -
  have u: "\<not> has_marker ''STRENGTHS:'' (msg ''user'' ''Please validate'')"
    by (simp add: has_marker_def msg_def)
  have a: "has_marker ''STRENGTHS:'' (msg ''assistant'' ''STRENGTHS: cheap'')"
    by (simp add: has_marker_def msg_def dict_get_def)
  have m: "\<forall>x\<in>set swot_only.
      \<not> has_marker ''### MARKET RESEARCHER'' x \<and> \<not> has_marker ''MARKET SIZE:'' x"
    by (simp add: swot_only_def has_marker_def msg_def dict_get_def)
  have c: "\<forall>x\<in>set swot_only.
      \<not> has_marker ''### COMPETITOR SCOUT'' x \<and> \<not> has_marker ''DIRECT COMPETITORS:'' x"
    by (simp add: swot_only_def has_marker_def msg_def dict_get_def)
  have i: "\<forall>x\<in>set swot_only. \<not> has_marker ''CLARIFIED IDEA:'' x"
    by (simp add: swot_only_def has_marker_def msg_def dict_get_def)
  have f: "\<forall>x\<in>set swot_only. \<not> has_marker ''STRATEGIC FEEDBACK:'' x"
    by (simp add: swot_only_def has_marker_def msg_def dict_get_def)
  have s: "swot swot_only = Some ''STRENGTHS: cheap''"
    by (simp add: swot_def swot_only_def py_or_def find_agent_response_def msg_def dict_get_def
        response_of_def truthy_def)
  have sl: "section_lines ''SWOT Analysis'' [] (swot swot_only) =
      ''\<newline>### SWOT Analysis\<newline>STRENGTHS: cheap\<newline>''"
    by (simp add: s section_lines_def truthy_def text_of_def)
  note t = missing_sections [of "''pet taxi''" "''2025-01-01 12:00:00''" swot_only]
  from t m c i f sl
  have "fst (generate_final_report ''pet taxi'' ''2025-01-01 12:00:00'' swot_only) =
     report_header ''pet taxi'' ''2025-01-01 12:00:00'' @
     ''\<newline>### Market Research\<newline>(No MarketResearcher output found.)\<newline>'' @
     ''\<newline>### Competitive Analysis\<newline>(No CompetitorScout output found.)\<newline>'' @
     ''\<newline>### SWOT Analysis\<newline>STRENGTHS: cheap\<newline>'' @
     report_footer"
    by (simp only: append_Nil)
  with u a show ?thesis by simp
qed

text \<open>
  The claim as stated fails for the last three sections: on a transcript with a user
  message only, the report has the two placeholders and no line for the clarified idea,
  the SWOT analysis or the strategic feedback.
\<close>

theorem placeholder_counterexample:
  "\<not> has_marker ''CLARIFIED IDEA:'' (msg ''user'' ''Please validate this business idea: CLARIFIED IDEA: SWOT'') \<and>
   \<not> has_marker ''### SWOT ANALYSIS'' (msg ''user'' ''Please validate this business idea: CLARIFIED IDEA: SWOT'') \<and>
   \<not> has_marker ''STRENGTHS:'' (msg ''user'' ''Please validate this business idea: CLARIFIED IDEA: SWOT'') \<and>
   \<not> has_marker ''STRATEGIC FEEDBACK:'' (msg ''user'' ''Please validate this business idea: CLARIFIED IDEA: SWOT'') \<and>
   fst (generate_final_report ''x'' ''d'' user_only) =
     report_header ''x'' ''d'' @
     ''\<newline>### Market Research\<newline>(No MarketResearcher output found.)\<newline>'' @
     ''\<newline>### Competitive Analysis\<newline>(No CompetitorScout output found.)\<newline>'' @
     report_footer \<and>
   \<not> str_in ''Clarified'' (fst (generate_final_report ''x'' ''d'' user_only)) \<and>
   \<not> str_in ''SWOT'' (fst (generate_final_report ''x'' ''d'' user_only)) \<and>
   \<not> str_in ''Strategic'' (fst (generate_final_report ''x'' ''d'' user_only))"
proof -
  have s: "market_research user_only = None" "competitor_analysis user_only = None"
    "clarified user_only = None" "swot user_only = None" "feedback user_only = None"
    by (simp_all add: market_research_def competitor_analysis_def clarified_def swot_def
        feedback_def user_only_def py_or_def find_agent_response_def msg_def truthy_def)
  have r: "fst (generate_final_report ''x'' ''d'' user_only) =
     report_header ''x'' ''d'' @
     ''\<newline>### Market Research\<newline>(No MarketResearcher output found.)\<newline>'' @
     ''\<newline>### Competitive Analysis\<newline>(No CompetitorScout output found.)\<newline>'' @
     report_footer"
    by (simp only: report_structure s section_lines_None append_Nil)
  have n1: "\<not> str_in ''Clarified'' (fst (generate_final_report ''x'' ''d'' user_only))"
    unfolding r by (simp add: report_header_def report_footer_def)
  have n2: "\<not> str_in ''SWOT'' (fst (generate_final_report ''x'' ''d'' user_only))"
    unfolding r by (simp add: report_header_def report_footer_def)
  have n3: "\<not> str_in ''Strategic'' (fst (generate_final_report ''x'' ''d'' user_only))"
    unfolding r by (simp add: report_header_def report_footer_def)
  have h: "\<not> has_marker ''CLARIFIED IDEA:'' (msg ''user'' ''Please validate this business idea: CLARIFIED IDEA: SWOT'')"
    "\<not> has_marker ''### SWOT ANALYSIS'' (msg ''user'' ''Please validate this business idea: CLARIFIED IDEA: SWOT'')"
    "\<not> has_marker ''STRENGTHS:'' (msg ''user'' ''Please validate this business idea: CLARIFIED IDEA: SWOT'')"
    "\<not> has_marker ''STRATEGIC FEEDBACK:'' (msg ''user'' ''Please validate this business idea: CLARIFIED IDEA: SWOT'')"
    by (simp_all add: has_marker_def msg_def)
  from h r n1 n2 n3 show ?thesis by simp
qed

section \<open>Web search before the reply\<close>

lemma bodies_length: "bodies rs = Inr bs \<Longrightarrow> length bs = length rs"
  by (induction rs arbitrary: bs) (auto split: option.splits sum.splits)

lemma web_search_length:
  assumes "honours_limit ddgs"
  shows "length (web_search ddgs query) \<le> 5"
proof (cases "ddgs query 5")
  case (Inl e)
  then show ?thesis by (simp add: web_search_def web_search_try_def)
next
  case (Inr rs)
  with assms have l: "length rs \<le> 5" by (auto simp: honours_limit_def)
  show ?thesis
  proof (cases "bodies rs")
    case (Inl e)
    with Inr show ?thesis by (simp add: web_search_def web_search_try_def)
  next
    case r: (Inr bs)
    then have "length bs = length rs" by (rule bodies_length)
    with Inr r l show ?thesis by (simp add: web_search_def web_search_try_def)
  qed
qed

lemma update_last: "ms \<noteq> [] \<Longrightarrow> ms[length ms - 1 := x] = butlast ms @ [x]"
  by (induction ms rule: rev_induct) simp_all

text \<open>
  C6. For every query: an exception raised in the body of \<^verbatim>\<open>web_search\<close>, by the provider
  or after it, ends in the empty list, and the caller sees a list, never the exception.
  So where the provider raises on every call, \<^verbatim>\<open>generate_reply\<close> appends nothing: the
  message list after the call is the one handed in, and the parent is given that list.
\<close>

theorem search_failure_swallowed:
  "(web_search_try ddgs query = Inl e \<longrightarrow> web_search ddgs query = []) \<and>
   (ddgs query 5 = Inl e \<longrightarrow> web_search ddgs query = []) \<and>
   ((\<forall>q. \<exists>e'. ddgs q 5 = Inl e') \<longrightarrow>
      messages_after (generate_reply super_generate_reply ddgs self messages) = messages \<and>
      reply (generate_reply super_generate_reply ddgs self messages) =
        super_generate_reply messages)"
proof (intro conjI impI)
  assume "web_search_try ddgs query = Inl e"
  then show "web_search ddgs query = []" by (simp add: web_search_def)
next
  assume "ddgs query 5 = Inl e"
  then show "web_search ddgs query = []" by (simp add: web_search_def web_search_try_def)
next
  assume a: "\<forall>q. \<exists>e'. ddgs q 5 = Inl e'"
  have w: "web_search ddgs q = []" for q
  proof -
    from a obtain e' where "ddgs q 5 = Inl e'" by blast
    then show ?thesis by (simp add: web_search_def web_search_try_def)
  qed
  show "messages_after (generate_reply super_generate_reply ddgs self messages) = messages"
    by (cases messages) (simp_all add: generate_reply_def Let_def w split: option.splits)
  show "reply (generate_reply super_generate_reply ddgs self messages) =
        super_generate_reply messages"
    by (cases messages) (simp_all add: generate_reply_def Let_def w split: option.splits)
qed

theorem search_failure_swallowed_witness:
  "failing_provider ''market trends and analysis for pet taxi'' 5 =
     Inl (Exception ''connection timed out'') \<and>
   web_search failing_provider ''market trends and analysis for pet taxi'' = [] \<and>
   messages_after (generate_reply (\<lambda>m. m) failing_provider researcher
                     (Some [msg ''user'' ''hello''])) = Some [msg ''user'' ''hello''] \<and>
   reply (generate_reply (\<lambda>m. m) failing_provider researcher
            (Some [msg ''user'' ''hello''])) = Some [msg ''user'' ''hello'']"
proof -
  have h: "failing_provider ''market trends and analysis for pet taxi'' 5 =
     Inl (Exception ''connection timed out'')"
    by (simp add: failing_provider_def)
  have a: "\<forall>q. \<exists>e'. failing_provider q 5 = Inl e'"
    by (simp add: failing_provider_def)
  note t = search_failure_swallowed [of failing_provider
      "''market trends and analysis for pet taxi''" "Exception ''connection timed out''"
      "\<lambda>m. m" researcher "Some [msg ''user'' ''hello'']"]
  from t h a show ?thesis by blast
qed

text \<open>
  C7. For every non-empty message list, an agent named as one of the two research roles,
  and a non-empty search result for that role's query: after \<^verbatim>\<open>generate_reply\<close> the list
  is the old one with the last message's content replaced by its previous content, the
  banner, and the first three snippets joined by newlines; the parent is given this
  updated list; one query is sent to the provider, asking for at most 5 results, so a
  provider that returns no more than it is asked for yields at most 5 snippets.
\<close>

theorem snippets_appended:
  assumes "ms \<noteq> []"
    and "name self = ''MarketResearcher'' \<or> name self = ''CompetitorScout''"
    and "query = (if name self = ''MarketResearcher''
                  then ''market trends and analysis for ''
                  else ''top competitors and alternatives for '') @ business_idea self"
    and "web_search ddgs query = snippets"
    and "snippets \<noteq> []"
  shows "messages_after (generate_reply super_generate_reply ddgs self (Some ms)) =
           Some (butlast ms @
                 [(last ms)(''content'' \<mapsto>
                    dict_get (last ms) ''content'' [] @
                    ''\<newline>\<newline>WEB SEARCH RESULTS:\<newline>'' @
                    join ''\<newline>'' (take 3 snippets))]) \<and>
         reply (generate_reply super_generate_reply ddgs self (Some ms)) =
           super_generate_reply
             (messages_after (generate_reply super_generate_reply ddgs self (Some ms))) \<and>
         queries (generate_reply super_generate_reply ddgs self (Some ms)) = [query] \<and>
         (honours_limit ddgs \<longrightarrow> length snippets \<le> 5)"
proof -
  from assms(2,3) have q: "research_query self = Some query"
    by (auto simp: research_query_def)
  have l: "honours_limit ddgs \<longrightarrow> length snippets \<le> 5"
    using web_search_length [of ddgs query] assms(4) by simp
  from assms(1) have u: "\<And>x. ms[length ms - Suc 0 := x] = butlast ms @ [x]"
    using update_last [of ms] by simp
  from assms(1,4,5) q l show ?thesis
    by (simp add: generate_reply_def Let_def u)
qed

theorem snippets_appended_witness:
  "name researcher = ''MarketResearcher'' \<and>
   web_search four_results ''market trends and analysis for pet taxi'' =
     [''s1'', ''s2'', ''s3'', ''s4''] \<and>
   honours_limit four_results \<and>
   messages_after (generate_reply (\<lambda>m. m) four_results researcher
                     (Some [msg ''assistant'' ''idea'', msg ''user'' ''hello''])) =
     Some [msg ''assistant'' ''idea'',
           msg ''user'' ''hello\<newline>\<newline>WEB SEARCH RESULTS:\<newline>s1\<newline>s2\<newline>s3''] \<and>
   reply (generate_reply (\<lambda>m. m) four_results researcher
            (Some [msg ''assistant'' ''idea'', msg ''user'' ''hello''])) =
     Some [msg ''assistant'' ''idea'',
           msg ''user'' ''hello\<newline>\<newline>WEB SEARCH RESULTS:\<newline>s1\<newline>s2\<newline>s3''] \<and>
   queries (generate_reply (\<lambda>m. m) four_results researcher
            (Some [msg ''assistant'' ''idea'', msg ''user'' ''hello''])) =
     [''market trends and analysis for pet taxi'']"
proof -
  have h1: "[msg ''assistant'' ''idea'', msg ''user'' ''hello''] \<noteq> []" by simp
  have n: "name researcher = ''MarketResearcher''" by (simp add: researcher_def)
  then have h2: "name researcher = ''MarketResearcher'' \<or> name researcher = ''CompetitorScout''"
    by simp
  have h3: "''market trends and analysis for pet taxi'' =
      (if name researcher = ''MarketResearcher''
       then ''market trends and analysis for ''
       else ''top competitors and alternatives for '') @ business_idea researcher"
    by (simp add: researcher_def)
  have h4: "web_search four_results ''market trends and analysis for pet taxi'' =
      [''s1'', ''s2'', ''s3'', ''s4'']"
    by (simp add: web_search_def web_search_try_def four_results_def)
  have h5: "[''s1'', ''s2'', ''s3'', ''s4''] \<noteq> ([] :: string list)" by simp
  have hl: "honours_limit four_results"
    by (simp add: honours_limit_def four_results_def)
  have v: "(msg ''user'' ''hello'')(''content'' \<mapsto>
             dict_get (msg ''user'' ''hello'') ''content'' [] @
             ''\<newline>\<newline>WEB SEARCH RESULTS:\<newline>'' @
             join ''\<newline>'' (take 3 [''s1'', ''s2'', ''s3'', ''s4''])) =
           msg ''user'' ''hello\<newline>\<newline>WEB SEARCH RESULTS:\<newline>s1\<newline>s2\<newline>s3''"
    by (simp add: msg_def dict_get_def)
  note t = snippets_appended [OF h1 h2 h3 h4 h5, of "\<lambda>m. m"]
  from t v n h4 hl show ?thesis by simp
qed

text \<open>
  C10. Called with \<^verbatim>\<open>None\<close> or with the empty list, \<^verbatim>\<open>generate_reply\<close> sends no query to
  the provider and changes no message, whatever the agent's name; the parent is given
  the argument as received, and the last message is not looked at.
\<close>

theorem empty_messages_delegated:
  "generate_reply super_generate_reply ddgs self None =
     \<lparr>messages_after = None, queries = [], reply = super_generate_reply None\<rparr> \<and>
   generate_reply super_generate_reply ddgs self (Some []) =
     \<lparr>messages_after = Some [], queries = [], reply = super_generate_reply (Some [])\<rparr>"
  by (simp add: generate_reply_def)

end
